theory Spec2Isabelle
  imports Complex_Main "HOL-Library.Sublist"
begin

section \<open>Python strings\<close>

text \<open>
  A Python \<open>str\<close> is modelled as a \<open>string\<close> whose characters are the code points
  0 to 255. On these code points \<open>str.isspace\<close>, \<open>str.lower\<close> and \<open>str.strip\<close> act as
  defined below: the white-space characters are U+0009 to U+000D, U+001C to U+0020,
  U+0085 and U+00A0, and the upper-case letters are A to Z, U+00C0 to U+00D6 and
  U+00D8 to U+00DE, each 32 below its lower-case letter.
\<close>

definition isspace :: "char \<Rightarrow> bool" where
  "isspace c = (of_char c \<in> {9, 10, 11, 12, 13, 28, 29, 30, 31, 32, 133, 160 :: nat})"

definition lower_char :: "char \<Rightarrow> char" where
  "lower_char c =
     (let n = (of_char c :: nat)
      in if (65 \<le> n \<and> n \<le> 90) \<or> (192 \<le> n \<and> n \<le> 214) \<or> (216 \<le> n \<and> n \<le> 222)
         then char_of (n + 32) else c)"

definition lower :: "string \<Rightarrow> string" where
  "lower s = map lower_char s"

definition strip :: "string \<Rightarrow> string" where
  "strip s = rev (dropWhile isspace (rev (dropWhile isspace s)))"

text \<open>\<open>a in b\<close> on two strings is \<^const>\<open>sublist\<close>: \<open>a\<close> occurs in \<open>b\<close> as a contiguous run.\<close>

text \<open>\<open>xs[:k]\<close>: a negative \<open>k\<close> counts from the end of the list.\<close>

definition py_slice_to :: "'a list \<Rightarrow> int \<Rightarrow> 'a list" where
  "py_slice_to xs k =
     (if 0 \<le> k then take (nat k) xs else take (length xs - nat (- k)) xs)"

text \<open>
  \<open>list(dict.fromkeys(xs))\<close>: the keys are inserted in order, and a key that is already
  present keeps the position of its first insertion.
\<close>

fun fromkeys_into :: "'a list \<Rightarrow> 'a list \<Rightarrow> 'a list" where
  "fromkeys_into keys [] = keys"
| "fromkeys_into keys (x # xs) =
     fromkeys_into (if x \<in> set keys then keys else keys @ [x]) xs"

definition dict_fromkeys :: "'a list \<Rightarrow> 'a list" where
  "dict_fromkeys xs = fromkeys_into [] xs"

text \<open>
  \<open>xs.sort(key=f, reverse=True)\<close> on real-valued keys: a stable sort by descending
  key, which is the stable ascending insertion sort of the library on the negated key.
\<close>

definition sort_reverse :: "('a \<Rightarrow> real) \<Rightarrow> 'a list \<Rightarrow> 'a list" where
  "sort_reverse f xs = sort_key (\<lambda>x. - f x) xs"

section \<open>Single-precision numbers\<close>

text \<open>
  The similarities \<open>find_similar\<close> computes are NumPy \<open>float32\<close> scalars, and its test
  \<open>score >= threshold\<close> compares such a scalar with a Python \<open>float\<close>: NumPy (by the
  promotion rules of its version 2, where a Python \<open>float\<close> adapts to the type of the
  NumPy scalar) casts the threshold to \<open>float32\<close> and compares in single precision. A
  finite \<open>float\<close> is modelled by the real number it stands for.

  \<open>float32_round\<close> is the cast: the nearest single-precision number, a tie going to
  the even significand. The exponent of the magnitude \<open>a\<close>, kept between -126 and
  127, is found by doubling a magnitude below 1 or halving one from 2 on; the
  magnitude is rounded to a multiple of the unit in the last place, which is 23
  binary places below the exponent. A result above \<open>float32_max\<close> stands for infinity.
\<close>

definition round_half_even :: "real \<Rightarrow> int" where
  "round_half_even y =
     (let f = \<lfloor>y\<rfloor>; d = y - of_int f
      in if d < 1 / 2 then f else if 1 / 2 < d then f + 1
         else if even f then f else f + 1)"

primrec doublings :: "nat \<Rightarrow> real \<Rightarrow> nat" where
  "doublings 0 a = 0"
| "doublings (Suc n) a = (if 1 \<le> a then 0 else Suc (doublings n (2 * a)))"

primrec halvings :: "nat \<Rightarrow> real \<Rightarrow> nat" where
  "halvings 0 a = 0"
| "halvings (Suc n) a = (if a < 2 then 0 else Suc (halvings n (a / 2)))"

definition float32_exponent :: "real \<Rightarrow> int" where
  "float32_exponent a = (if 1 \<le> a then int (halvings 127 a) else - int (doublings 126 a))"

text \<open>The magnitude rounded at its exponent, and the cast with its sign.\<close>

definition magnitude_round :: "real \<Rightarrow> real" where
  "magnitude_round a =
     of_int (round_half_even (a / 2 powi (float32_exponent a - 23)))
       * 2 powi (float32_exponent a - 23)"

definition float32_round :: "real \<Rightarrow> real" where
  "float32_round x = sgn x * magnitude_round \<bar>x\<bar>"

definition float32_max :: real where
  "float32_max = (2 ^ 24 - 1) * 2 ^ 104"

text \<open>
  \<open>score >= threshold\<close> on a \<open>float32\<close> score and a \<open>float\<close> threshold: no score is at
  least plus infinity, every score is at least minus infinity.
\<close>

definition ge_float32 :: "real \<Rightarrow> real \<Rightarrow> bool" where
  "ge_float32 score threshold =
     (let t = float32_round threshold
      in if float32_max < t then False
         else if t < - float32_max then True
         else t \<le> score)"

section \<open>SkillsMatcher (app/models/skills_matcher.py)\<close>

text \<open>
  The sentence-transformer is an external collaborator. Its \<open>encode\<close> on one text is a
  function \<open>string \<Rightarrow> 'v option\<close>, where \<open>None\<close> stands for a raised exception; a batch
  call encodes each text as the single call does and raises when one of them does.
  \<open>util.pytorch_cos_sim\<close> is a parameter \<open>cos_sim :: 'v \<Rightarrow> 'v \<Rightarrow> real\<close> of the
  functions that use it. A score is the real number its floating-point value stands
  for; the threshold test of \<open>find_similar\<close> rounds as NumPy does, and the rounding of
  the other floating-point operations is not modelled.

  The fields are those of the class; \<open>model\<close> is \<open>None\<close> or the loaded encoder.
\<close>

type_synonym 'v encoder = "string \<Rightarrow> 'v option"

record 'v SkillsMatcher =
  model :: "'v encoder option"
  corpus_embeddings :: "'v list option"
  corpus :: "string list"

text \<open>
  \<open>__init__\<close> with a model that loads (when \<open>_load_model\<close> raises, no object is
  constructed).
\<close>

definition SkillsMatcher_init :: "'v encoder \<Rightarrow> 'v SkillsMatcher" where
  "SkillsMatcher_init enc = \<lparr>model = Some enc, corpus_embeddings = None, corpus = []\<rparr>"

text \<open>
  \<open>encode_texts\<close> catches every exception of the batch call, also the one of calling
  \<open>encode\<close> on a \<open>model\<close> that is \<open>None\<close>, and returns the empty array.
\<close>

definition encode_texts :: "'v SkillsMatcher \<Rightarrow> string list \<Rightarrow> 'v list" where
  "encode_texts m texts =
     (case model m of
        None \<Rightarrow> []
      | Some enc \<Rightarrow> (case those (map enc texts) of None \<Rightarrow> [] | Some es \<Rightarrow> es))"

text \<open>
  \<open>build_corpus\<close> on a list of strings. Its \<open>except\<close> clause re-raises, but no statement
  of the \<open>try\<close> block raises on a list of strings (\<open>encode_texts\<close> catches its own
  exceptions), so the call always returns and the model is the new state of the object.
\<close>

definition build_corpus :: "'v SkillsMatcher \<Rightarrow> string list \<Rightarrow> 'v SkillsMatcher" where
  "build_corpus m skills =
     (let c = dict_fromkeys (map (\<lambda>s. lower (strip s)) (filter (\<lambda>s. strip s \<noteq> []) skills))
      in m\<lparr>corpus := c, corpus_embeddings := Some (encode_texts m c)\<rparr>)"

text \<open>
  \<open>find_similar\<close>. The \<open>except\<close> clause turns every exception of the \<open>try\<close> block into
  the empty list: \<open>encode\<close> called on a missing model or raising by itself, and the
  \<open>IndexError\<close> of \<open>self.corpus[idx]\<close> for a kept index beyond the corpus. When the
  stored embeddings are the empty array of a failed \<open>encode_texts\<close>, the similarity
  computation raises and the result is the empty list as well, which is what the
  model computes from the empty list of similarities. The returned score
  \<open>float(score)\<close> is the value of the single-precision score.
\<close>

definition find_similar ::
  "('v \<Rightarrow> 'v \<Rightarrow> real) \<Rightarrow> 'v SkillsMatcher \<Rightarrow> string \<Rightarrow> int \<Rightarrow> real \<Rightarrow> (string \<times> real) list" where
  "find_similar cos_sim m query top_k threshold =
     (case corpus_embeddings m of
        None \<Rightarrow> []
      | Some embs \<Rightarrow>
          if length (corpus m) = 0 then []
          else (case model m of
              None \<Rightarrow> []
            | Some enc \<Rightarrow>
                (case enc (lower (strip query)) of
                   None \<Rightarrow> []
                 | Some query_embedding \<Rightarrow>
                     (let similarities = map (cos_sim query_embedding) embs;
                          kept = filter (\<lambda>(idx, score). ge_float32 score threshold)
                                   (enumerate 0 similarities)
                      in if \<exists>p \<in> set kept. length (corpus m) \<le> fst p then []
                         else py_slice_to
                               (sort_reverse snd
                                 (map (\<lambda>(idx, score). (corpus m ! idx, score)) kept))
                               top_k))))"

definition is_corpus_ready :: "'v SkillsMatcher \<Rightarrow> bool" where
  "is_corpus_ready m =
     (model m \<noteq> None \<and> corpus_embeddings m \<noteq> None \<and> length (corpus m) > 0)"

text \<open>
  The states an object can be in: the one \<open>__init__\<close> leaves, and those reached by
  calls of \<open>build_corpus\<close> (no other method assigns a field).
\<close>

inductive reachable :: "'v SkillsMatcher \<Rightarrow> bool" where
  init: "reachable (SkillsMatcher_init enc)"
| build: "reachable m \<Longrightarrow> reachable (build_corpus m skills)"

section \<open>SkillExtractionService (app/services/extraction_service.py)\<close>

text \<open>
  The service holds its matcher in \<open>self.skills_matcher\<close>; the functions below take that
  matcher as argument \<open>m\<close>. A call \<open>find_similar(query, top_k, threshold)\<close> reads the
  matcher and changes nothing. To state which index queries a function makes, each
  function returns, beside its result, the list of the calls of \<open>find_similar\<close> it
  made, in order.
\<close>

type_synonym query = "string \<times> int \<times> real"

record skill_match =
  original :: string
  matched_skill :: "string option"
  similarity_score :: real
  confidence :: string
  reason :: "string option"

text \<open>
  One turn of the loop \<open>for skill in valid_skills\<close> of \<open>match_skills_with_bert\<close>, on
  the list \<open>matched\<close> and the queries made so far.
\<close>

definition match_step ::
  "('v \<Rightarrow> 'v \<Rightarrow> real) \<Rightarrow> 'v SkillsMatcher \<Rightarrow> real \<Rightarrow> int \<Rightarrow>
   skill_match list \<times> query list \<Rightarrow> string \<Rightarrow> skill_match list \<times> query list" where
  "match_step cos_sim m threshold top_k st s =
     (case st of (matched, queries) \<Rightarrow>
        (let skill = strip s
         in if skill = [] then (matched, queries)
            else
              (let results = find_similar cos_sim m skill top_k threshold;
                   queries' = queries @ [(skill, top_k, threshold)]
               in case results of
                    best_match # _ \<Rightarrow>
                      (matched @ [\<lparr>original = skill,
                                   matched_skill = Some (fst best_match),
                                   similarity_score = snd best_match,
                                   confidence =
                                     (if snd best_match > 85 / 100 then ''high''
                                      else ''medium''),
                                   reason = None\<rparr>],
                       queries')
                  | [] \<Rightarrow>
                      (matched @ [\<lparr>original = skill,
                                   matched_skill = None,
                                   similarity_score = 0,
                                   confidence = ''low'',
                                   reason = Some ''Sem match acima do threshold''\<rparr>],
                       queries'))))"

definition match_skills_with_bert ::
  "('v \<Rightarrow> 'v \<Rightarrow> real) \<Rightarrow> 'v SkillsMatcher \<Rightarrow> string list \<Rightarrow> real \<Rightarrow> int \<Rightarrow>
   skill_match list \<times> query list" where
  "match_skills_with_bert cos_sim m skills threshold top_k =
     (if skills = [] then ([], [])
      else if \<not> is_corpus_ready m then ([], [])
      else
        (let valid_skills = filter (\<lambda>s. s \<noteq> [] \<and> strip s \<noteq> []) skills
         in if valid_skills = [] then ([], [])
            else foldl (match_step cos_sim m threshold top_k) ([], []) valid_skills))"

text \<open>
  The result of \<open>calculate_profile_match\<close>. \<open>Inl msg\<close> is the dictionary
  \<open>{"error": msg}\<close>; \<open>Inr r\<close> is a result dictionary. \<open>match_percentage\<close> is the number
  printed before the percent sign. The five level strings are named by their first
  word. The keys \<open>level\<close>, \<open>matched_count\<close>, \<open>missing_count\<close>, \<open>required_count\<close> and the
  recommendation are absent (\<open>None\<close>) from the dictionary returned for a candidate
  without skills; the remaining texts of \<open>analysis\<close> are formatted from the counts and
  are left out.
\<close>

datatype level = EXCELENTE | BOM | MODERADO | BAIXO | INSUFICIENTE

record profile_match =
  match_score :: real
  match_percentage :: int
  level :: "level option"
  matched_skills :: "string list"
  matched_count :: "nat option"
  missing_skills :: "string list"
  missing_count :: "nat option"
  required_skills :: "string list"
  required_count :: "nat option"
  recommendation :: "string option"

text \<open>\<open>int(x)\<close> on a float truncates towards zero.\<close>

definition py_int :: "real \<Rightarrow> int" where
  "py_int x = (if 0 \<le> x then \<lfloor>x\<rfloor> else \<lceil>x\<rceil>)"

text \<open>
  One turn of the loop \<open>for requirement in job_requirements\<close>, on the three lists
  \<open>matched_skills\<close>, \<open>missing_skills\<close>, \<open>scores\<close> and the queries made so far.
\<close>

definition profile_step ::
  "('v \<Rightarrow> 'v \<Rightarrow> real) \<Rightarrow> 'v SkillsMatcher \<Rightarrow> string list \<Rightarrow>
   string list \<times> string list \<times> real list \<times> query list \<Rightarrow> string \<Rightarrow>
   string list \<times> string list \<times> real list \<times> query list" where
  "profile_step cos_sim m candidate_skills_lower st requirement =
     (case st of (matched, missing, scores, queries) \<Rightarrow>
        (let req_lower = lower requirement;
             exact_match = (\<exists>cs \<in> set candidate_skills_lower.
                              sublist req_lower cs \<or> sublist cs req_lower)
         in if exact_match
            then (matched @ [requirement], missing, scores @ [1], queries)
            else
              (let bert_results = find_similar cos_sim m requirement 1 (70 / 100);
                   queries' = queries @ [(requirement, 1, 70 / 100)]
               in case bert_results of
                    (skill, score) # _ \<Rightarrow>
                      if lower skill \<in> set candidate_skills_lower
                      then (matched @ [requirement], missing, scores @ [score], queries')
                      else (matched, missing @ [requirement], scores, queries')
                  | [] \<Rightarrow> (matched, missing @ [requirement], scores, queries'))))"

definition calculate_profile_match ::
  "('v \<Rightarrow> 'v \<Rightarrow> real) \<Rightarrow> 'v SkillsMatcher \<Rightarrow> string list \<Rightarrow> string list \<Rightarrow> real \<Rightarrow> real \<Rightarrow>
   (string + profile_match) \<times> query list" where
  "calculate_profile_match cos_sim m candidate_skills job_requirements
     weight_match weight_similarity =
     (if job_requirements = [] then (Inl ''Nenhum requisito fornecido'', [])
      else if candidate_skills = [] then
        (Inr \<lparr>match_score = 0, match_percentage = 0, level = None,
              matched_skills = [], matched_count = None,
              missing_skills = job_requirements, missing_count = None,
              required_skills = job_requirements, required_count = None,
              recommendation = None\<rparr>, [])
      else
        (let candidate_skills_lower = map lower candidate_skills;
             (matched, missing, scores, queries) =
               foldl (profile_step cos_sim m candidate_skills_lower) ([], [], [], [])
                 job_requirements;
             avg_score = (if scores \<noteq> []
                          then sum_list scores / real (length job_requirements) else 0);
             percentage = min 100 (py_int (avg_score * 100));
             lvl = (if percentage \<ge> 90 then EXCELENTE
                    else if percentage \<ge> 75 then BOM
                    else if percentage \<ge> 60 then MODERADO
                    else if percentage \<ge> 40 then BAIXO
                    else INSUFICIENTE)
         in (Inr \<lparr>match_score = avg_score, match_percentage = percentage,
                   level = Some lvl,
                   matched_skills = matched, matched_count = Some (length matched),
                   missing_skills = missing, missing_count = Some (length missing),
                   required_skills = job_requirements,
                   required_count = Some (length job_requirements),
                   recommendation =
                     Some (if percentage \<ge> 75 then ''Forte candidato''
                           else ''Candidato em desenvolvimento'')\<rparr>,
             queries)))"

section \<open>OccupationInferenceService (app/services/occupation_inference_service.py)\<close>

text \<open>
  The service holds its matcher and the occupations loaded from the registry, each a
  pair of \<open>codigo\<close> and \<open>titulo\<close>.
\<close>

record 'v OccupationInferenceService =
  skills_matcher :: "'v SkillsMatcher"
  occupations :: "(string \<times> string) list"

text \<open>An entry of the list \<open>infer_occupations\<close> returns.\<close>

record occupation_result =
  titulo :: string
  codigo :: "string option"
  score :: real
  tier :: string

text \<open>
  The field \<open>tier\<close> is the key \<open>confidence\<close> of the returned dictionary (the name is
  taken by the record of \<open>match_skills_with_bert\<close>).

  \<open>occupation_scores\<close> is a dictionary from titles to lists of scores, which keeps its
  keys in the order of their insertion: an association list.
  \<open>dict_append d title score\<close> is the body of the inner loop: insert the empty list
  for a new title, then append the score to the title's list.
\<close>

fun dict_append ::
  "(string \<times> real list) list \<Rightarrow> string \<Rightarrow> real \<Rightarrow> (string \<times> real list) list" where
  "dict_append [] title s = [(title, [s])]"
| "dict_append ((k, v) # d) title s =
     (if k = title then (k, v @ [s]) # d else (k, v) # dict_append d title s)"

text \<open>The loop \<open>for occupation_title, score in results\<close>.\<close>

fun accumulate ::
  "(string \<times> real list) list \<Rightarrow> (string \<times> real) list \<Rightarrow> (string \<times> real list) list" where
  "accumulate d [] = d"
| "accumulate d ((title, s) # results) = accumulate (dict_append d title s) results"

text \<open>The loop \<open>for keyword in context["keywords"]\<close>.\<close>

fun keyword_loop ::
  "('v \<Rightarrow> 'v \<Rightarrow> real) \<Rightarrow> 'v SkillsMatcher \<Rightarrow> real \<Rightarrow> string list \<Rightarrow>
   (string \<times> real list) list \<Rightarrow> (string \<times> real list) list" where
  "keyword_loop cos_sim m threshold [] d = d"
| "keyword_loop cos_sim m threshold (keyword # rest) d =
     (if length (strip keyword) < 3 then keyword_loop cos_sim m threshold rest d
      else keyword_loop cos_sim m threshold rest
             (accumulate d (find_similar cos_sim m keyword 10 threshold)))"

text \<open>The search for the code of a title: the first occupation with that title.\<close>

fun occupation_code :: "(string \<times> string) list \<Rightarrow> string \<Rightarrow> string option" where
  "occupation_code [] title = None"
| "occupation_code ((code, t) # occs) title =
     (if t = title then Some code else occupation_code occs title)"

text \<open>
  \<open>round(x, 4)\<close>: the nearest multiple of one ten-thousandth, a tie going to the even
  one.
\<close>

definition py_round4 :: "real \<Rightarrow> real" where
  "py_round4 x =
     (let y = x * 10000; f = \<lfloor>y\<rfloor>; d = y - of_int f
      in of_int (if d < 1 / 2 then f else if 1 / 2 < d then f + 1
                 else if even f then f else f + 1) / 10000)"

text \<open>
  \<open>infer_occupations\<close>, from the keywords on: \<open>keywords\<close> is the list
  \<open>context["keywords"]\<close> that \<open>extract_professional_context\<close> returns for the text of the
  curriculum (its regular expressions are not modelled).
\<close>

definition infer_occupations ::
  "('v \<Rightarrow> 'v \<Rightarrow> real) \<Rightarrow> 'v OccupationInferenceService \<Rightarrow> string list \<Rightarrow> int \<Rightarrow> real \<Rightarrow>
   occupation_result list" where
  "infer_occupations cos_sim svc keywords top_k threshold =
     (if keywords = [] then []
      else
        (let occupation_scores =
               keyword_loop cos_sim (skills_matcher svc) threshold keywords [];
             final_occupations =
               map (\<lambda>(occupation_title, scores).
                      (let avg_score = (if scores \<noteq> []
                                        then sum_list scores / real (length scores) else 0)
                       in \<lparr>titulo = occupation_title,
                           codigo = occupation_code (occupations svc) occupation_title,
                           score = py_round4 avg_score,
                           tier = (if avg_score > 80 / 100 then ''high''
                                   else if avg_score > 70 / 100 then ''medium''
                                   else ''low'')\<rparr>))
                   occupation_scores
         in py_slice_to (sort_reverse score final_occupations) top_k))"

section \<open>What the specification describes\<close>

text \<open>
  The definitions of this section follow the words of the specification; the theorems
  compare them with the functions above.

  The entries of a vocabulary that clear the threshold, each with its cosine
  similarity to the embedded query, in the order of the vocabulary. \<open>emb\<close> is the
  embedding of a text by an oracle that does not fail.
\<close>

definition entries_above ::
  "('v \<Rightarrow> 'v \<Rightarrow> real) \<Rightarrow> (string \<Rightarrow> 'v) \<Rightarrow> string list \<Rightarrow> string \<Rightarrow> real \<Rightarrow>
   (string \<times> real) list" where
  "entries_above cos_sim emb vocabulary query threshold =
     filter (\<lambda>p. snd p \<ge> threshold)
       (map (\<lambda>e. (e, cos_sim (emb (lower (strip query))) (emb e))) vocabulary)"

text \<open>
  The score of one requirement against the candidate's skills: \<open>Some 1\<close> for a
  containment in either direction, ignoring case; otherwise the score of the single
  entry the index returns at threshold 0.70, if its text equals a candidate skill
  ignoring case; otherwise \<open>None\<close>, the requirement is missing.
\<close>

definition substring_match :: "string list \<Rightarrow> string \<Rightarrow> bool" where
  "substring_match candidate_skills requirement =
     (\<exists>c \<in> set candidate_skills.
        sublist (lower requirement) (lower c) \<or> sublist (lower c) (lower requirement))"

definition requirement_score ::
  "('v \<Rightarrow> 'v \<Rightarrow> real) \<Rightarrow> 'v SkillsMatcher \<Rightarrow> string list \<Rightarrow> string \<Rightarrow> real option" where
  "requirement_score cos_sim m candidate_skills requirement =
     (if substring_match candidate_skills requirement then Some 1
      else (case find_similar cos_sim m requirement 1 (70 / 100) of
              [] \<Rightarrow> None
            | (text, s) # _ \<Rightarrow>
                if \<exists>c \<in> set candidate_skills. lower text = lower c then Some s else None))"

definition level_of :: "int \<Rightarrow> level" where
  "level_of p =
     (if p \<ge> 90 then EXCELENTE else if p \<ge> 75 then BOM else if p \<ge> 60 then MODERADO
      else if p \<ge> 40 then BAIXO else INSUFICIENTE)"

text \<open>
  All the hits of the keywords' queries, in the order they are made; the scores a
  title accumulated; the arithmetic mean; the confidence of a score.
\<close>

definition keyword_hits ::
  "('v \<Rightarrow> 'v \<Rightarrow> real) \<Rightarrow> 'v SkillsMatcher \<Rightarrow> real \<Rightarrow> string list \<Rightarrow> (string \<times> real) list" where
  "keyword_hits cos_sim m threshold keywords =
     concat (map (\<lambda>k. find_similar cos_sim m k 10 threshold)
               (filter (\<lambda>k. 3 \<le> length (strip k)) keywords))"

definition accumulated :: "(string \<times> real) list \<Rightarrow> string \<Rightarrow> real list" where
  "accumulated hits title = map snd (filter (\<lambda>h. fst h = title) hits)"

definition mean :: "real list \<Rightarrow> real" where
  "mean xs = sum_list xs / real (length xs)"

definition confidence_of :: "real \<Rightarrow> string" where
  "confidence_of s = (if s > 80 / 100 then ''high'' else if s > 70 / 100 then ''medium'' else ''low'')"

text \<open>Two strings that differ in the case of their letters only.\<close>

definition same_up_to_case :: "string \<Rightarrow> string \<Rightarrow> bool" where
  "same_up_to_case a b = list_all2 (\<lambda>x y. lower_char x = lower_char y) a b"

section \<open>Concrete oracles for the examples\<close>

text \<open>
  An encoder that represents a text by itself, and a similarity given by a table:
  a text is at similarity 1 to itself and at 0 to the texts the table does not list.
\<close>

definition enc0 :: "string encoder" where
  "enc0 t = Some t"

definition similarity_table :: "((string \<times> string) \<times> real) list" where
  "similarity_table =
     [((''programacao'', ''python''), 9 / 10),
      ((''programacao'', ''java''), 9 / 10),
      ((''programacao'', ''go''), 1 / 2),
      ((''programacao'', ''rust''), 95 / 100),
      ((''aws'', ''docker''), 4 / 10),
      ((''kubernetes'', ''docker''), 65 / 100),
      ((''postgres'', ''postgresql''), 92 / 100),
      ((''contentores'', ''docker''), 8 / 10),
      ((''contentores'', ''kubernetes''), 85 / 100),
      ((''engenharia de software'', ''engenheiro de software''), 80004 / 100000),
      ((''engenharia de software'', ''analista de dados''), 2 / 10),
      ((''analise de dados'', ''analista de dados''), 80001 / 100000),
      ((''quase'', ''limiar''), 11744051 / 16777216)]"

definition cos0 :: "string \<Rightarrow> string \<Rightarrow> real" where
  "cos0 q e =
     (if q = e then 1
      else (case map_of similarity_table (q, e) of Some v \<Rightarrow> v | None \<Rightarrow> 0))"

text \<open>The input terms of a build after normalisation: trimmed, then lower-cased.\<close>

definition normalized :: "string list \<Rightarrow> string list" where
  "normalized skills = map (\<lambda>s. lower (strip s)) skills"

text \<open>A matcher built on a list of programming languages.\<close>

definition languages :: "string SkillsMatcher" where
  "languages = build_corpus (SkillsMatcher_init enc0)
                 ['' Python '', ''JAVA'', '' '', ''python'', ''go'', ''Rust'']"

text \<open>
  The occupation result the specification describes for a title: the code found in
  the registry, the mean of the accumulated scores rounded to four decimal places,
  and the confidence of the mean.
\<close>

definition occupation_entry ::
  "(string \<times> string) list \<Rightarrow> (string \<times> real) list \<Rightarrow> string \<Rightarrow> occupation_result" where
  "occupation_entry occs hits title =
     \<lparr>titulo = title,
      codigo = occupation_code occs title,
      score = py_round4 (mean (accumulated hits title)),
      tier = confidence_of (mean (accumulated hits title))\<rparr>"

text \<open>
  A service on two occupation titles, a matcher on one entry, whose similarity to the
  query \<open>quase\<close> is the single-precision number nearest to 0.7, and a matcher on the
  skills of a candidate.
\<close>

definition occupation_service :: "string OccupationInferenceService" where
  "occupation_service =
     \<lparr>skills_matcher = build_corpus (SkillsMatcher_init enc0)
                         [''Engenheiro de Software'', ''Analista de Dados''],
      occupations = [(''2122'', ''engenheiro de software''), (''2112'', ''analista de dados'')]\<rparr>"

definition boundary_index :: "string SkillsMatcher" where
  "boundary_index = build_corpus (SkillsMatcher_init enc0) [''limiar'']"

definition skills_index :: "string SkillsMatcher" where
  "skills_index = build_corpus (SkillsMatcher_init enc0)
                    [''Python'', ''Django'', ''PostgreSQL'', ''Docker'']"

text \<open>
  The hits grouped by title, the titles in the order of their first hit: what the
  dictionary \<open>occupation_scores\<close> holds after the hits have been accumulated.
\<close>

definition grouped :: "(string \<times> real) list \<Rightarrow> (string \<times> real list) list" where
  "grouped hits = map (\<lambda>t. (t, accumulated hits t)) (dict_fromkeys (map fst hits))"

section \<open>Facts about strings\<close>

lemma of_char_lower_char:
  "(of_char (lower_char c) :: nat) =
     (let n = (of_char c :: nat)
      in if (65 \<le> n \<and> n \<le> 90) \<or> (192 \<le> n \<and> n \<le> 214) \<or> (216 \<le> n \<and> n \<le> 222)
         then n + 32 else n)"
  by (auto simp: lower_char_def Let_def)

lemma isspace_lower_char [simp]: "isspace (lower_char c) = isspace c"
  unfolding isspace_def of_char_lower_char by (auto simp: Let_def)

lemma lower_char_idem [simp]: "lower_char (lower_char c) = lower_char c"
proof -
  have "(of_char (lower_char (lower_char c)) :: nat) = of_char (lower_char c)"
    unfolding of_char_lower_char [of "lower_char c"] by (auto simp: of_char_lower_char Let_def)
  then show ?thesis by (metis char_of_char)
qed

lemma lower_idem: "lower (lower s) = lower s"
  by (simp add: lower_def)

lemma lower_eq_Nil [simp]: "lower s = [] \<longleftrightarrow> s = []"
  by (simp add: lower_def)

lemma dropWhile_isspace_lower:
  "dropWhile isspace (map lower_char s) = map lower_char (dropWhile isspace s)"
  by (induction s) auto

lemma strip_lower: "strip (lower s) = lower (strip s)"
  by (simp add: strip_def lower_def dropWhile_isspace_lower rev_map)

lemma strip_ends:
  "strip s = [] \<or> (\<not> isspace (hd (strip s)) \<and> \<not> isspace (last (strip s)))"
proof (cases "dropWhile isspace s = []")
  case True
  show ?thesis unfolding strip_def True by simp
next
  case False
  let ?d = "dropWhile isspace s"
  have h: "\<not> isspace (hd ?d)" using False by (rule hd_dropWhile)
  show ?thesis
  proof (cases "strip s = []")
    case True then show ?thesis by simp
  next
    case ne: False
    then have r: "dropWhile isspace (rev ?d) \<noteq> []" by (simp add: strip_def)
    have l: "\<not> isspace (last (strip s))"
      using hd_dropWhile [OF r] r by (simp add: strip_def last_rev)
    obtain k where k: "dropWhile isspace (rev ?d) = drop k (rev ?d)"
      by (metis dropWhile_eq_drop)
    have "strip s = take (length ?d - k) ?d"
      by (simp add: strip_def k rev_drop)
    with ne have "hd (strip s) = hd ?d"
      by (metis hd_take neq0_conv take_0)
    with h l show ?thesis by simp
  qed
qed

lemma strip_fixed:
  assumes "s = [] \<or> (\<not> isspace (hd s) \<and> \<not> isspace (last s))"
  shows "strip s = s"
proof (cases s)
  case Nil then show ?thesis by (simp add: strip_def)
next
  case (Cons a t)
  with assms have "\<not> isspace a" and "\<not> isspace (last s)" by auto
  then have "dropWhile isspace s = s" using Cons by simp
  moreover have "dropWhile isspace (rev s) = rev s"
    using \<open>\<not> isspace (last s)\<close> Cons
    by (cases "rev s") (auto simp: hd_rev [symmetric] dest: arg_cong [where f = hd])
  ultimately show ?thesis by (simp add: strip_def)
qed

lemma strip_idem: "strip (strip s) = strip s"
  by (rule strip_fixed) (rule strip_ends)

lemma strip_pad:
  assumes "\<forall>c \<in> set ws1. isspace c" "\<forall>c \<in> set ws2. isspace c"
  shows "strip (ws1 @ s @ ws2) = strip s"
proof -
  have a: "dropWhile isspace (ws1 @ t) = dropWhile isspace t" for t
    using assms(1) by (simp add: dropWhile_append)
  have b: "dropWhile isspace (rev ws2 @ t) = dropWhile isspace t" for t
    using assms(2) by (simp add: dropWhile_append)
  show ?thesis
  proof (cases "\<forall>c\<in>set s. isspace c")
    case True
    then have t: "dropWhile isspace (s @ ws2) = []" "dropWhile isspace s = []"
      using assms(2) by auto
    show ?thesis unfolding strip_def a t by simp
  next
    case False
    then have "dropWhile isspace (s @ ws2) = dropWhile isspace s @ ws2"
      by (auto simp: dropWhile_append)
    then show ?thesis by (simp add: strip_def a b)
  qed
qed

section \<open>Facts about the dictionary of keys\<close>

lemma set_fromkeys_into: "set (fromkeys_into keys xs) = set keys \<union> set xs"
  by (induction xs arbitrary: keys) auto

lemma distinct_fromkeys_into: "distinct keys \<Longrightarrow> distinct (fromkeys_into keys xs)"
  by (induction xs arbitrary: keys) auto

lemma takeWhile_append_stop:
  "\<exists>x \<in> set xs. \<not> P x \<Longrightarrow> takeWhile P (xs @ ys) = takeWhile P xs"
  by (induction xs) auto

text \<open>
  The invariant of the insertion loop: of two keys, the one at the smaller position
  was seen before the other was seen for the first time.
\<close>

lemma fromkeys_into_order:
  assumes "set keys = set seen"
    and "\<forall>i j. i < j \<and> j < length keys \<longrightarrow> keys ! i \<in> set (takeWhile (\<lambda>x. x \<noteq> keys ! j) seen)"
    and "i < j" "j < length (fromkeys_into keys xs)"
  shows "fromkeys_into keys xs ! i \<in> set (takeWhile (\<lambda>x. x \<noteq> fromkeys_into keys xs ! j) (seen @ xs))"
  using assms
proof (induction xs arbitrary: keys seen)
  case Nil
  then show ?case by simp
next
  case (Cons x xs)
  let ?keys = "if x \<in> set keys then keys else keys @ [x]"
  have s: "set ?keys = set (seen @ [x])" using Cons.prems(1) by auto
  have o: "\<forall>i j. i < j \<and> j < length ?keys \<longrightarrow>
             ?keys ! i \<in> set (takeWhile (\<lambda>y. y \<noteq> ?keys ! j) (seen @ [x]))"
  proof (intro allI impI)
    fix a b assume ab: "a < b \<and> b < length ?keys"
    show "?keys ! a \<in> set (takeWhile (\<lambda>y. y \<noteq> ?keys ! b) (seen @ [x]))"
    proof (cases "b < length keys")
      case True
      then have "keys ! b \<in> set seen" using Cons.prems(1) nth_mem by blast
      then have "takeWhile (\<lambda>y. y \<noteq> keys ! b) (seen @ [x]) = takeWhile (\<lambda>y. y \<noteq> keys ! b) seen"
        by (intro takeWhile_append_stop) auto
      moreover have "keys ! a \<in> set (takeWhile (\<lambda>y. y \<noteq> keys ! b) seen)"
        using Cons.prems(2) ab True by blast
      ultimately show ?thesis using True ab by (auto simp: nth_append)
    next
      case False
      with ab have nx: "x \<notin> set keys" and b: "b = length keys" by (auto split: if_splits)
      then have "x \<notin> set seen" using Cons.prems(1) by simp
      then have "takeWhile (\<lambda>y. y \<noteq> x) (seen @ [x]) = seen"
        by (induction seen) auto
      moreover have "keys ! a \<in> set seen" using ab b Cons.prems(1) nth_mem by fastforce
      ultimately show ?thesis using nx b ab by (auto simp: nth_append)
    qed
  qed
  have "fromkeys_into ?keys xs ! i
          \<in> set (takeWhile (\<lambda>y. y \<noteq> fromkeys_into ?keys xs ! j) ((seen @ [x]) @ xs))"
    using Cons.IH [OF s o Cons.prems(3)] Cons.prems(4) by simp
  then show ?case by simp
qed

lemma set_dict_fromkeys [simp]: "set (dict_fromkeys xs) = set xs"
  by (simp add: dict_fromkeys_def set_fromkeys_into)

lemma distinct_dict_fromkeys [simp]: "distinct (dict_fromkeys xs)"
  by (simp add: dict_fromkeys_def distinct_fromkeys_into)

lemma dict_fromkeys_order:
  "i < j \<Longrightarrow> j < length (dict_fromkeys xs) \<Longrightarrow>
   dict_fromkeys xs ! i \<in> set (takeWhile (\<lambda>x. x \<noteq> dict_fromkeys xs ! j) xs)"
  using fromkeys_into_order [of "[]" "[]" i j xs] by (simp add: dict_fromkeys_def)

lemma takeWhile_filter:
  "\<forall>x. \<not> P x \<longrightarrow> Q x \<Longrightarrow> takeWhile P (filter Q xs) = filter Q (takeWhile P xs)"
  by (induction xs) auto

section \<open>The vocabulary a build stores\<close>

lemma corpus_build_corpus:
  "corpus (build_corpus m skills) = dict_fromkeys (filter (\<lambda>t. t \<noteq> []) (normalized skills))"
  by (simp add: build_corpus_def Let_def normalized_def filter_map comp_def)

text \<open>
  Claim C9. After \<open>build_corpus\<close> on any list of terms, from any state of the matcher,
  every stored entry is lower-cased, trimmed and not empty; the entries are pairwise
  distinct; they are exactly the non-empty normalised input terms; and they stand in
  the order in which the normalised input terms are first seen: of two entries, the
  earlier one occurs in the normalised input before the first occurrence of the
  later one.
\<close>

theorem build_corpus_vocabulary:
  "(\<forall>e \<in> set (corpus (build_corpus m skills)). lower e = e \<and> strip e = e \<and> e \<noteq> [])
   \<and> distinct (corpus (build_corpus m skills))
   \<and> set (corpus (build_corpus m skills)) = set (normalized skills) - {[]}
   \<and> (\<forall>i j. i < j \<and> j < length (corpus (build_corpus m skills)) \<longrightarrow>
         corpus (build_corpus m skills) ! i
           \<in> set (takeWhile (\<lambda>t. t \<noteq> corpus (build_corpus m skills) ! j) (normalized skills)))"
proof -
  let ?c = "corpus (build_corpus m skills)"
  let ?n = "filter (\<lambda>t. t \<noteq> []) (normalized skills)"
  have c: "?c = dict_fromkeys ?n" by (rule corpus_build_corpus)
  have 1: "\<forall>e \<in> set ?c. lower e = e \<and> strip e = e \<and> e \<noteq> []"
    unfolding c by (auto simp: normalized_def lower_idem strip_lower strip_idem)
  have 2: "distinct ?c" unfolding c by simp
  have 3: "set ?c = set (normalized skills) - {[]}" unfolding c by auto
  have 4: "?c ! i \<in> set (takeWhile (\<lambda>t. t \<noteq> ?c ! j) (normalized skills))"
    if "i < j \<and> j < length ?c" for i j
  proof -
    have "?c ! j \<in> set ?c" using that by simp
    then have ne: "?c ! j \<noteq> []" using 1 by blast
    have "?c ! i \<in> set (takeWhile (\<lambda>t. t \<noteq> ?c ! j) ?n)"
      using that dict_fromkeys_order [of i j ?n] unfolding c by simp
    also have "takeWhile (\<lambda>t. t \<noteq> ?c ! j) ?n
                 = filter (\<lambda>t. t \<noteq> []) (takeWhile (\<lambda>t. t \<noteq> ?c ! j) (normalized skills))"
      using ne by (intro takeWhile_filter) auto
    finally show ?thesis by simp
  qed
  from 1 2 3 4 show ?thesis by blast
qed

theorem build_corpus_vocabulary_witness:
  "corpus (build_corpus (SkillsMatcher_init enc0) ['' Go'', ''PYTHON '', '' '', ''go'', ''Rust''])
     = [''go'', ''python'', ''rust'']
   \<and> lower ''python'' = ''python'' \<and> strip ''python'' = ''python''
   \<and> ''go'' \<in> set (takeWhile (\<lambda>t. t \<noteq> ''python'')
                      (normalized ['' Go'', ''PYTHON '', '' '', ''go'', ''Rust'']))"
proof -
  let ?m = "SkillsMatcher_init enc0"
  let ?skills = "['' Go'', ''PYTHON '', '' '', ''go'', ''Rust'']"
  have c: "corpus (build_corpus ?m ?skills) = [''go'', ''python'', ''rust'']"
    by code_simp
  note t = build_corpus_vocabulary [of ?m ?skills, unfolded c]
  from t have "\<forall>e \<in> set [''go'', ''python'', ''rust'']. lower e = e \<and> strip e = e \<and> e \<noteq> []"
    by blast
  then have 1: "lower ''python'' = ''python'' \<and> strip ''python'' = ''python''"
    by simp
  from t have "\<forall>i j. i < j \<and> j < length [''go'', ''python'', ''rust''] \<longrightarrow>
         [''go'', ''python'', ''rust''] ! i
           \<in> set (takeWhile (\<lambda>t. t \<noteq> [''go'', ''python'', ''rust''] ! j) (normalized ?skills))"
    by blast
  from this [rule_format, of 0 1]
  have 2: "''go'' \<in> set (takeWhile (\<lambda>t. t \<noteq> ''python'') (normalized ?skills))"
    by simp
  from c 1 2 show ?thesis by blast
qed

section \<open>The query of a search is normalised\<close>

lemma same_up_to_case_lower: "same_up_to_case a b \<Longrightarrow> lower a = lower b"
  unfolding same_up_to_case_def lower_def by (induction a b rule: list_all2_induct) auto

lemma find_similar_normalised_query:
  "lower (strip q) = lower (strip q') \<Longrightarrow>
   find_similar cos_sim m q top_k threshold = find_similar cos_sim m q' top_k threshold"
  unfolding find_similar_def by (simp cong: option.case_cong if_cong)

text \<open>
  Claim C10. \<open>find_similar\<close> trims and lower-cases its query before embedding it: the
  result for a query is the result for its normalised form, and a query \<open>q'\<close> that
  differs from \<open>q\<close> in the case of its letters only, padded with any white space on
  either side, gives the same result sequence as \<open>q\<close>, for every state of the matcher,
  every \<open>top_k\<close> and every threshold. (The embedding oracle is a function of the text.)
\<close>

theorem find_similar_case_and_padding:
  assumes "\<forall>c \<in> set ws1. isspace c" and "\<forall>c \<in> set ws2. isspace c"
    and "same_up_to_case q q'"
  shows "find_similar cos_sim m (ws1 @ q' @ ws2) top_k threshold
           = find_similar cos_sim m q top_k threshold
         \<and> find_similar cos_sim m q top_k threshold
           = find_similar cos_sim m (lower (strip q)) top_k threshold"
proof -
  have "lower (strip (ws1 @ q' @ ws2)) = lower (strip q')"
    using assms(1,2) by (simp add: strip_pad)
  also have "\<dots> = strip (lower q')" by (simp add: strip_lower)
  also have "\<dots> = strip (lower q)" using assms(3) by (simp add: same_up_to_case_lower)
  also have "\<dots> = lower (strip q)" by (simp add: strip_lower)
  finally have 1: "lower (strip (ws1 @ q' @ ws2)) = lower (strip q)" .
  have 2: "lower (strip q) = lower (strip (lower (strip q)))"
    by (simp add: strip_lower strip_idem lower_idem)
  show ?thesis
    using find_similar_normalised_query [OF 1] find_similar_normalised_query [OF 2] by blast
qed

theorem find_similar_case_and_padding_witness:
  "find_similar cos0 languages (''  '' @ ''PROGRAMACAO'' @ '' '') 2 (6 / 10)
     = find_similar cos0 languages ''Programacao'' 2 (6 / 10)
   \<and> find_similar cos0 languages ''Programacao'' 2 (6 / 10)
     = [(''rust'', 95 / 100), (''python'', 9 / 10)]"
proof -
  have 1: "\<forall>c \<in> set ''  ''. isspace c" by code_simp
  have 2: "\<forall>c \<in> set '' ''. isspace c" by code_simp
  have 3: "same_up_to_case ''Programacao'' ''PROGRAMACAO''" by code_simp
  have 4: "find_similar cos0 languages ''Programacao'' 2 (6 / 10)
             = [(''rust'', 95 / 100), (''python'', 9 / 10)]"
    by code_simp
  from find_similar_case_and_padding [OF 1 2 3, of cos0 languages 2 "6 / 10"] 4
  show ?thesis by simp
qed

section \<open>The weights and the boundary cases of the profile match\<close>

text \<open>
  Claim C7. The parameters \<open>weight_match\<close> and \<open>weight_similarity\<close> have no influence
  on what \<open>calculate_profile_match\<close> returns: for all candidate skills, requirements
  and two pairs of weights, the results (score, percentage, level, matched and
  missing skills, and the index queries made) are equal.
\<close>

theorem calculate_profile_match_ignores_weights:
  "calculate_profile_match cos_sim m candidate_skills job_requirements w1 w2
     = calculate_profile_match cos_sim m candidate_skills job_requirements w1' w2'"
  by (simp add: calculate_profile_match_def)

text \<open>
  Claim C6. With no candidate skill and at least one requirement,
  \<open>calculate_profile_match\<close> returns a result of score 0 in which every requirement is
  missing and none is matched, and makes no index query. With no requirement it
  returns the error dictionary \<open>{"error": "Nenhum requisito fornecido"}\<close>, whatever
  the candidate skills are: the error of an empty list of requirements is signalled
  through the returned value.
\<close>

theorem calculate_profile_match_boundary:
  "(job_requirements \<noteq> [] \<longrightarrow>
      calculate_profile_match cos_sim m [] job_requirements w1 w2
        = (Inr \<lparr>match_score = 0, match_percentage = 0, level = None,
                matched_skills = [], matched_count = None,
                missing_skills = job_requirements, missing_count = None,
                required_skills = job_requirements, required_count = None,
                recommendation = None\<rparr>, []))
   \<and> calculate_profile_match cos_sim m candidate_skills [] w1 w2
        = (Inl ''Nenhum requisito fornecido'', [])"
  by (simp add: calculate_profile_match_def)

theorem calculate_profile_match_boundary_witness:
  "calculate_profile_match cos0 languages [] [''Python'', ''AWS''] (7 / 10) (3 / 10)
        = (Inr \<lparr>match_score = 0, match_percentage = 0, level = None,
                matched_skills = [], matched_count = None,
                missing_skills = [''Python'', ''AWS''], missing_count = None,
                required_skills = [''Python'', ''AWS''], required_count = None,
                recommendation = None\<rparr>, [])"
  using calculate_profile_match_boundary
          [of "[''Python'', ''AWS'']" cos0 languages "7 / 10" "3 / 10"]
  by simp

section \<open>An index that is not ready\<close>

text \<open>
  Claim C5, as stated, fails: \<open>match_skills_with_bert\<close> raises no error and returns no
  error value when the index is not ready. On the matcher \<open>__init__\<close> leaves, which
  is not ready, the call with the candidate \<open>python\<close> returns the empty list, the
  value it also returns on a ready index for an empty list of candidates.
\<close>

theorem match_skills_with_bert_not_ready_returns_empty:
  "match_skills_with_bert cos0 (SkillsMatcher_init enc0) [''python''] (75 / 100) 1 = ([], [])
   \<and> match_skills_with_bert cos0 languages [] (75 / 100) 1 = ([], [])"
  by (simp add: match_skills_with_bert_def is_corpus_ready_def SkillsMatcher_init_def)

text \<open>
  Claim C5, amended. For every list of candidates, whenever \<open>is_corpus_ready\<close> is
  false \<open>match_skills_with_bert\<close> returns the empty list at once: it processes no
  candidate and makes no index query.
\<close>

theorem match_skills_with_bert_not_ready:
  "\<not> is_corpus_ready m \<Longrightarrow> match_skills_with_bert cos_sim m skills threshold top_k = ([], [])"
  by (simp add: match_skills_with_bert_def)

theorem match_skills_with_bert_not_ready_witness:
  "\<not> is_corpus_ready (SkillsMatcher_init enc0)
   \<and> match_skills_with_bert cos0 (SkillsMatcher_init enc0) [''python'', ''java''] (75 / 100) 1
       = ([], [])"
proof -
  have 1: "\<not> is_corpus_ready (SkillsMatcher_init enc0)"
    by (simp add: is_corpus_ready_def SkillsMatcher_init_def)
  from 1 match_skills_with_bert_not_ready [OF 1, of cos0 "[''python'', ''java'']" "75 / 100" 1]
  show ?thesis by simp
qed

lemma model_build_corpus [simp]: "model (build_corpus m skills) = model m"
  by (simp add: build_corpus_def Let_def)

lemma embeddings_build_corpus [simp]: "corpus_embeddings (build_corpus m skills) \<noteq> None"
  by (simp add: build_corpus_def Let_def)

lemma model_builds [simp]: "model (foldl build_corpus m calls) = model m"
  by (induction calls arbitrary: m) auto

text \<open>
  Claim C4, as stated, fails: \<open>build_corpus\<close> signals no failure on blank terms. On
  the terms \<open>"  "\<close> and \<open>""\<close> the call returns as every call does, having stored an
  empty vocabulary and an empty array of embeddings; the code has no
  \<open>CorpusUnavailableError\<close> and no check of the vocabulary's size.
\<close>

theorem build_corpus_blank_terms_returns:
  "build_corpus (SkillsMatcher_init enc0) [''  '', '''']
     = \<lparr>model = Some enc0, corpus_embeddings = Some [], corpus = []\<rparr>"
  by (simp add: build_corpus_def SkillsMatcher_init_def dict_fromkeys_def strip_def
      isspace_def encode_texts_def)

text \<open>
  Claim C4, amended. \<open>build_corpus\<close> on terms that are all empty or white space
  completes without an error and stores an empty vocabulary, so that the index is
  not ready afterwards; and after any sequence of builds on a freshly constructed
  matcher, \<open>is_corpus_ready\<close> is true if and only if a build has completed and the
  vocabulary it stored is not empty.
\<close>

theorem build_corpus_readiness:
  "((\<forall>s \<in> set skills. strip s = []) \<longrightarrow>
      corpus (build_corpus m skills) = [] \<and> \<not> is_corpus_ready (build_corpus m skills))
   \<and> (is_corpus_ready (foldl build_corpus (SkillsMatcher_init enc) calls)
        \<longleftrightarrow> calls \<noteq> [] \<and> corpus (foldl build_corpus (SkillsMatcher_init enc) calls) \<noteq> [])"
proof -
  have 1: "corpus (build_corpus m skills) = [] \<and> \<not> is_corpus_ready (build_corpus m skills)"
    if "\<forall>s \<in> set skills. strip s = []"
  proof -
    have "filter (\<lambda>s. strip s \<noteq> []) skills = []" using that by (simp add: filter_empty_conv)
    then have "corpus (build_corpus m skills) = []"
      by (simp add: build_corpus_def Let_def dict_fromkeys_def)
    then show ?thesis by (simp add: is_corpus_ready_def)
  qed
  have 2: "is_corpus_ready (foldl build_corpus (SkillsMatcher_init enc) calls)
        \<longleftrightarrow> calls \<noteq> [] \<and> corpus (foldl build_corpus (SkillsMatcher_init enc) calls) \<noteq> []"
  proof (cases calls rule: rev_cases)
    case Nil
    then show ?thesis by (simp add: is_corpus_ready_def SkillsMatcher_init_def)
  next
    case (snoc cs c)
    then show ?thesis by (simp add: is_corpus_ready_def SkillsMatcher_init_def)
  qed
  from 1 2 show ?thesis by blast
qed

theorem build_corpus_readiness_witness:
  "strip ''  '' = [] \<and> strip '''' = []
   \<and> \<not> is_corpus_ready (build_corpus (SkillsMatcher_init enc0) [''  '', ''''])
   \<and> is_corpus_ready (foldl build_corpus (SkillsMatcher_init enc0) [[''  ''], [''Go'', ''Rust'']])"
proof -
  have 1: "\<forall>s \<in> set [''  '', '''']. strip s = []" by code_simp
  have 2: "corpus (foldl build_corpus (SkillsMatcher_init enc0) [[''  ''], [''Go'', ''Rust'']])
             = [''go'', ''rust'']"
    by code_simp
  note t = build_corpus_readiness
             [of "[''  '', '''']" "SkillsMatcher_init enc0" enc0 "[[''  ''], [''Go'', ''Rust'']]"]
  from t 1 2 show ?thesis by simp
qed

section \<open>The cast to single precision is monotone\<close>

lemma round_half_even_bounds:
  "of_int (round_half_even y) \<le> y + 1 / 2 \<and> y - 1 / 2 \<le> of_int (round_half_even y)"
  unfolding round_half_even_def Let_def by (auto; linarith)

lemma round_half_even_mono: "y \<le> z \<Longrightarrow> round_half_even y \<le> round_half_even z"
proof -
  assume yz: "y \<le> z"
  have fl: "\<lfloor>y\<rfloor> \<le> \<lfloor>z\<rfloor>" using yz by (rule floor_mono)
  show ?thesis
  proof (cases "\<lfloor>y\<rfloor> = \<lfloor>z\<rfloor>")
    case True
    then show ?thesis using yz unfolding round_half_even_def Let_def by auto
  next
    case False
    with fl have "\<lfloor>y\<rfloor> + 1 \<le> \<lfloor>z\<rfloor>" by simp
    moreover have "round_half_even y \<le> \<lfloor>y\<rfloor> + 1" unfolding round_half_even_def Let_def by auto
    moreover have "\<lfloor>z\<rfloor> \<le> round_half_even z" unfolding round_half_even_def Let_def by auto
    ultimately show ?thesis by linarith
  qed
qed

lemma round_half_even_of_int [simp]: "round_half_even (of_int n) = n"
  by (simp add: round_half_even_def)


lemma doublings_le: "doublings n a \<le> n"
  by (induction n arbitrary: a) auto

lemma halvings_le: "halvings n a \<le> n"
  by (induction n arbitrary: a) auto

lemma two_powi_add: "(2::real) powi (i + j) = 2 powi i * 2 powi j"
  by (simp add: power_int_add)

lemma two_powi_neg_nat: "(2::real) powi (- int n) = 1 / 2 ^ n"
  by (simp add: power_int_minus inverse_eq_divide)

lemma doublings_reached: "doublings n a < n \<Longrightarrow> 1 \<le> a * 2 ^ doublings n a"
proof (induction n arbitrary: a)
  case 0
  then show ?case by simp
next
  case (Suc n)
  show ?case
  proof (cases "1 \<le> a")
    case True
    then show ?thesis by simp
  next
    case False
    with Suc.prems have "doublings n (2 * a) < n" by simp
    then have "1 \<le> 2 * a * 2 ^ doublings n (2 * a)" by (rule Suc.IH)
    then show ?thesis using False by (simp add: mult.assoc mult.left_commute)
  qed
qed

lemma doublings_before: "0 < doublings n a \<Longrightarrow> a * 2 ^ doublings n a < 2"
proof (induction n arbitrary: a)
  case 0
  then show ?case by simp
next
  case (Suc n)
  then have a: "a < 1" by (auto split: if_splits)
  show ?case
  proof (cases "doublings n (2 * a) = 0")
    case True
    then show ?thesis using a by simp
  next
    case False
    then show ?thesis using Suc.IH [of "2 * a"] a by (simp add: mult.assoc)
  qed
qed

lemma halvings_reached: "halvings n a < n \<Longrightarrow> a / 2 ^ halvings n a < 2"
proof (induction n arbitrary: a)
  case 0
  then show ?case by simp
next
  case (Suc n)
  show ?case
  proof (cases "a < 2")
    case True
    then show ?thesis by simp
  next
    case False
    with Suc.prems have "halvings n (a / 2) < n" by simp
    then have "a / 2 / 2 ^ halvings n (a / 2) < 2" by (rule Suc.IH)
    then show ?thesis using False by (simp add: divide_divide_eq_left)
  qed
qed

lemma halvings_before: "0 < halvings n a \<Longrightarrow> 1 \<le> a / 2 ^ halvings n a"
proof (induction n arbitrary: a)
  case 0
  then show ?case by simp
next
  case (Suc n)
  then have a: "2 \<le> a" by (auto split: if_splits)
  show ?case
  proof (cases "halvings n (a / 2) = 0")
    case True
    then show ?thesis using a by simp
  next
    case False
    then show ?thesis using Suc.IH [of "a / 2"] a by simp
  qed
qed

lemma float32_exponent_range: "- 126 \<le> float32_exponent a \<and> float32_exponent a \<le> 127"
  using doublings_le [of 126 a] halvings_le [of 127 a] by (auto simp: float32_exponent_def)

lemma float32_exponent_lower:
  assumes "- 126 < float32_exponent a"
  shows "2 powi float32_exponent a \<le> a"
proof (cases "1 \<le> a")
  case True
  then have e: "float32_exponent a = int (halvings 127 a)" by (simp add: float32_exponent_def)
  show ?thesis
  proof (cases "halvings 127 a = 0")
    case True
    then show ?thesis using \<open>1 \<le> a\<close> e by simp
  next
    case False
    then have "1 \<le> a / 2 ^ halvings 127 a" using halvings_before [of 127 a] by simp
    then show ?thesis unfolding e by (simp add: field_simps)
  qed
next
  case False
  then have e: "float32_exponent a = - int (doublings 126 a)" by (simp add: float32_exponent_def)
  with assms have "doublings 126 a < 126" by simp
  then have "1 \<le> a * 2 ^ doublings 126 a" by (rule doublings_reached)
  then show ?thesis unfolding e by (simp add: power_int_minus field_simps)
qed

lemma float32_exponent_upper:
  assumes "float32_exponent a < 127"
  shows "a < 2 powi (float32_exponent a + 1)"
proof (cases "1 \<le> a")
  case True
  then have e: "float32_exponent a = int (halvings 127 a)" by (simp add: float32_exponent_def)
  with assms have "halvings 127 a < 127" by simp
  then have "a / 2 ^ halvings 127 a < 2" by (rule halvings_reached)
  then have "a < 2 ^ Suc (halvings 127 a)" by (simp add: field_simps)
  moreover have "2 powi (float32_exponent a + 1) = (2::real) ^ Suc (halvings 127 a)"
    unfolding e by (metis of_nat_Suc power_int_of_nat add.commute)
  ultimately show ?thesis by simp
next
  case False
  then have e: "float32_exponent a = - int (doublings 126 a)" by (simp add: float32_exponent_def)
  show ?thesis
  proof (cases "doublings 126 a = 0")
    case True
    then show ?thesis using False e by simp
  next
    case nz: False
    then have "a * 2 ^ doublings 126 a < 2" using doublings_before [of 126 a] by simp
    then have "a < 2 / 2 ^ doublings 126 a" by (simp add: field_simps)
    moreover have "2 powi (float32_exponent a + 1) = (2::real) / 2 ^ doublings 126 a"
    proof -
      have "(2::real) powi (- int (doublings 126 a) + 1)
              = 2 powi (- int (doublings 126 a)) * 2 powi 1"
        by (rule two_powi_add)
      then show ?thesis unfolding e by (simp add: two_powi_neg_nat)
    qed
    ultimately show ?thesis by simp
  qed
qed

lemma float32_exponent_mono:
  assumes "a \<le> b"
  shows "float32_exponent a \<le> float32_exponent b"
proof (rule ccontr)
  assume "\<not> float32_exponent a \<le> float32_exponent b"
  then have lt: "float32_exponent b < float32_exponent a" by simp
  with float32_exponent_range [of a] float32_exponent_range [of b]
  have "- 126 < float32_exponent a" and "float32_exponent b < 127" by auto
  then have "2 powi float32_exponent a \<le> a" and "b < 2 powi (float32_exponent b + 1)"
    by (auto intro: float32_exponent_lower float32_exponent_upper)
  moreover have "(2::real) powi (float32_exponent b + 1) \<le> 2 powi float32_exponent a"
    using lt by (intro power_int_increasing) auto
  ultimately show False using assms by linarith
qed

lemma magnitude_round_nonneg: "0 \<le> a \<Longrightarrow> 0 \<le> magnitude_round a"
proof -
  assume "0 \<le> a"
  then have "0 \<le> a / 2 powi (float32_exponent a - 23)" by simp
  then have "round_half_even 0 \<le> round_half_even (a / 2 powi (float32_exponent a - 23))"
    by (rule round_half_even_mono)
  then have "0 \<le> round_half_even (a / 2 powi (float32_exponent a - 23))"
    using round_half_even_of_int [of 0] by simp
  then show ?thesis by (simp add: magnitude_round_def)
qed

lemma magnitude_round_mono:
  assumes "a \<le> b"
  shows "magnitude_round a \<le> magnitude_round b"
proof (cases "float32_exponent a = float32_exponent b")
  case True
  let ?u = "(2::real) powi (float32_exponent b - 23)"
  have u: "0 < ?u" by simp
  have "a / ?u \<le> b / ?u" using assms u by (simp add: divide_right_mono)
  then have "round_half_even (a / ?u) \<le> round_half_even (b / ?u)" by (rule round_half_even_mono)
  then have "of_int (round_half_even (a / ?u)) * ?u \<le> of_int (round_half_even (b / ?u)) * ?u"
    using u by simp
  then show ?thesis by (simp add: magnitude_round_def True)
next
  case False
  with float32_exponent_mono [OF assms] have lt: "float32_exponent a < float32_exponent b" by simp
  let ?ea = "float32_exponent a" and ?eb = "float32_exponent b"
  have ra: "?ea < 127" and rb: "- 126 < ?eb"
    using lt float32_exponent_range [of a] float32_exponent_range [of b] by auto
  have "a < 2 powi (?ea + 1)" using ra by (rule float32_exponent_upper)
  then have "a / 2 powi (?ea - 23) \<le> 2 powi (?ea + 1) / 2 powi (?ea - 23)"
    by (simp add: divide_right_mono)
  also have "(2::real) powi (?ea + 1) / 2 powi (?ea - 23) = 2 powi 24"
  proof -
    have "(2::real) powi (?ea + 1) = 2 powi (24 + (?ea - 23))"
      by (rule arg_cong [of _ _ "power_int 2"]) simp
    also have "\<dots> = 2 powi 24 * 2 powi (?ea - 23)" by (rule two_powi_add)
    finally show ?thesis by simp
  qed
  also have "(2::real) powi 24 = of_int (2 ^ 24)" by simp
  finally have "round_half_even (a / 2 powi (?ea - 23)) \<le> round_half_even (of_int (2 ^ 24))"
    by (rule round_half_even_mono)
  then have "round_half_even (a / 2 powi (?ea - 23)) \<le> 2 ^ 24"
    unfolding round_half_even_of_int .
  then have "(of_int (round_half_even (a / 2 powi (?ea - 23))) :: real) \<le> of_int (2 ^ 24)"
    by (rule of_int_le_iff [THEN iffD2])
  then have "magnitude_round a \<le> 2 ^ 24 * 2 powi (?ea - 23)"
    unfolding magnitude_round_def by (simp add: mult_right_mono)
  also have "\<dots> = 2 powi (?ea + 1)"
  proof -
    have "(2::real) powi (?ea + 1) = 2 powi (24 + (?ea - 23))"
      by (rule arg_cong [of _ _ "power_int 2"]) simp
    also have "\<dots> = 2 powi 24 * 2 powi (?ea - 23)" by (rule two_powi_add)
    finally show ?thesis by simp
  qed
  also have "\<dots> \<le> 2 powi ?eb" using lt by (intro power_int_increasing) auto
  finally have 1: "magnitude_round a \<le> 2 powi ?eb" .
  have "2 powi ?eb \<le> b" using rb by (rule float32_exponent_lower)
  then have "2 powi ?eb / 2 powi (?eb - 23) \<le> b / 2 powi (?eb - 23)"
    by (simp add: divide_right_mono)
  moreover have "(2::real) powi ?eb / 2 powi (?eb - 23) = of_int (2 ^ 23)"
  proof -
    have "(2::real) powi ?eb = 2 powi (23 + (?eb - 23))"
      by (rule arg_cong [of _ _ "power_int 2"]) simp
    also have "\<dots> = 2 powi 23 * 2 powi (?eb - 23)" by (rule two_powi_add)
    finally show ?thesis by simp
  qed
  ultimately have "round_half_even (of_int (2 ^ 23)) \<le> round_half_even (b / 2 powi (?eb - 23))"
    by (intro round_half_even_mono) simp
  then have "2 ^ 23 \<le> round_half_even (b / 2 powi (?eb - 23))"
    unfolding round_half_even_of_int .
  then have "(of_int (2 ^ 23) :: real) \<le> of_int (round_half_even (b / 2 powi (?eb - 23)))"
    by (rule of_int_le_iff [THEN iffD2])
  then have "2 ^ 23 * 2 powi (?eb - 23) \<le> magnitude_round b"
    unfolding magnitude_round_def by (simp add: mult_right_mono)
  moreover have "(2::real) ^ 23 * 2 powi (?eb - 23) = 2 powi ?eb"
  proof -
    have "(2::real) powi ?eb = 2 powi (23 + (?eb - 23))"
      by (rule arg_cong [of _ _ "power_int 2"]) simp
    also have "\<dots> = 2 powi 23 * 2 powi (?eb - 23)" by (rule two_powi_add)
    finally show ?thesis by simp
  qed
  ultimately have 2: "2 powi ?eb \<le> magnitude_round b" by simp
  from 1 2 show ?thesis by linarith
qed

lemma float32_round_magnitude: "float32_round x = sgn x * magnitude_round \<bar>x\<bar>"
  by (simp add: float32_round_def)

lemma float32_round_mono:
  assumes "x \<le> y"
  shows "float32_round x \<le> float32_round y"
proof -
  consider "0 \<le> x" | "y \<le> 0" | "x < 0" "0 < y" by linarith
  then show ?thesis
  proof cases
    case 1
    then have "\<bar>x\<bar> \<le> \<bar>y\<bar>" using assms by simp
    from magnitude_round_mono [OF this] magnitude_round_nonneg [of "\<bar>y\<bar>"] 1 assms
    show ?thesis unfolding float32_round_magnitude by (cases "x = 0") (auto simp: sgn_if)
  next
    case 2
    then have "\<bar>y\<bar> \<le> \<bar>x\<bar>" using assms by simp
    from magnitude_round_mono [OF this] magnitude_round_nonneg [of "\<bar>x\<bar>"] 2 assms
    show ?thesis unfolding float32_round_magnitude by (cases "y = 0") (auto simp: sgn_if)
  next
    case 3
    then show ?thesis
      using magnitude_round_nonneg [of "\<bar>x\<bar>"] magnitude_round_nonneg [of "\<bar>y\<bar>"]
      unfolding float32_round_magnitude by (simp add: sgn_if)
  qed
qed

lemma ge_float32_antimono:
  "t1 \<le> t2 \<Longrightarrow> ge_float32 s t2 \<Longrightarrow> ge_float32 s t1"
  using float32_round_mono [of t1 t2] by (auto simp: ge_float32_def Let_def split: if_splits)

section \<open>The search of the index\<close>

lemma those_length: "those xs = Some ys \<Longrightarrow> length ys = length xs"
  by (induction xs arbitrary: ys) (auto split: option.splits)

lemma those_map_Some: "\<forall>x \<in> set xs. f x = Some (g x) \<Longrightarrow> those (map f xs) = Some (map g xs)"
  by (induction xs) auto

lemma length_encode_texts: "encode_texts m texts = [] \<or> length (encode_texts m texts) = length texts"
  by (auto simp: encode_texts_def those_length split: option.splits)

lemma reachable_embeddings_fit:
  "reachable m \<Longrightarrow> corpus_embeddings m = Some embs \<Longrightarrow> length embs \<le> length (corpus m)"
proof (induction rule: reachable.induct)
  case (init enc)
  then show ?case by (simp add: SkillsMatcher_init_def)
next
  case (build m skills)
  then show ?case
    using length_encode_texts [of m "corpus (build_corpus m skills)"]
    by (auto simp: build_corpus_def Let_def)
qed

lemma kept_entries:
  assumes "length sims \<le> length c"
  shows "map (\<lambda>(idx, score). (c ! idx, score))
           (filter (\<lambda>(idx, score). ge_float32 score threshold) (enumerate 0 sims))
         = filter (\<lambda>p. ge_float32 (snd p) threshold) (zip (take (length sims) c) sims)"
proof -
  have "map (\<lambda>(idx, score). (c ! idx, score)) (enumerate 0 sims) = zip (take (length sims) c) sims"
    using assms by (auto simp: list_eq_iff_nth_eq nth_enumerate_eq)
  then have "filter (\<lambda>p. ge_float32 (snd p) threshold) (zip (take (length sims) c) sims)
    = filter (\<lambda>p. ge_float32 (snd p) threshold) (map (\<lambda>(idx, score). (c ! idx, score)) (enumerate 0 sims))"
    by simp
  also have "\<dots> = map (\<lambda>(idx, score). (c ! idx, score))
           (filter (\<lambda>(idx, score). ge_float32 score threshold) (enumerate 0 sims))"
    by (simp add: filter_map comp_def case_prod_unfold)
  finally show ?thesis by simp
qed

lemma find_similar_fit:
  assumes "corpus_embeddings m = Some embs" and "length embs \<le> length (corpus m)"
    and "corpus m \<noteq> []" and "model m = Some enc" and "enc (lower (strip q)) = Some qe"
  shows "find_similar cos_sim m q top_k threshold
         = py_slice_to (sort_reverse snd
             (filter (\<lambda>p. ge_float32 (snd p) threshold)
                (zip (take (length embs) (corpus m)) (map (cos_sim qe) embs)))) top_k"
proof -
  let ?sims = "map (cos_sim qe) embs"
  have in_range: "\<not> (\<exists>p \<in> set (filter (\<lambda>(idx, score). ge_float32 score threshold) (enumerate 0 ?sims)).
                      length (corpus m) \<le> fst p)"
    using assms(2) by (auto simp: in_set_enumerate_eq)
  have k: "map (\<lambda>(idx, score). (corpus m ! idx, score))
           (filter (\<lambda>(idx, score). ge_float32 score threshold) (enumerate 0 ?sims))
         = filter (\<lambda>p. ge_float32 (snd p) threshold) (zip (take (length embs) (corpus m)) ?sims)"
    using kept_entries [of ?sims "corpus m" threshold] assms(2) by simp
  show ?thesis
    unfolding find_similar_def using assms in_range k by (auto simp: Let_def)
qed

lemma find_similar_not_ready: "\<not> is_corpus_ready m \<Longrightarrow> find_similar cos_sim m q top_k threshold = []"
  by (auto simp: find_similar_def is_corpus_ready_def split: option.splits)

lemma length_py_slice_to_all: "int (length xs) \<le> k \<Longrightarrow> py_slice_to xs k = xs"
  by (auto simp: py_slice_to_def)

lemma length_filter_mono:
  "(\<And>x. P x \<Longrightarrow> Q x) \<Longrightarrow> length (filter P xs) \<le> length (filter Q xs)"
  by (induction xs) auto

text \<open>
  Claim C3. For every reachable state of the matcher, every query and every pair of
  thresholds \<open>t1 \<le> t2\<close>, with \<open>top_k\<close> at least the size of the vocabulary, so that
  nothing is truncated, \<open>find_similar\<close> at \<open>t2\<close> returns at most as many results as at
  \<open>t1\<close>.
\<close>

theorem find_similar_threshold_monotone:
  assumes "reachable m" and "t1 \<le> t2" and "int (length (corpus m)) \<le> top_k"
  shows "length (find_similar cos_sim m q top_k t2) \<le> length (find_similar cos_sim m q top_k t1)"
proof (cases "corpus_embeddings m")
  case None
  then show ?thesis by (simp add: find_similar_def)
next
  case (Some embs)
  note fit = reachable_embeddings_fit [OF assms(1) Some]
  show ?thesis
  proof (cases "corpus m = [] \<or> model m = None")
    case True
    then show ?thesis by (auto simp: find_similar_def Some)
  next
    case False
    then obtain enc where enc: "model m = Some enc" and ne: "corpus m \<noteq> []" by auto
    show ?thesis
    proof (cases "enc (lower (strip q))")
      case None
      then show ?thesis by (simp add: find_similar_def Some enc)
    next
      case (Some qe)
      let ?z = "zip (take (length embs) (corpus m)) (map (cos_sim qe) embs)"
      have len: "int (length (sort_reverse snd (filter (\<lambda>p. ge_float32 (snd p) t) ?z))) \<le> top_k" for t
      proof -
        have "length (filter (\<lambda>p. ge_float32 (snd p) t) ?z) \<le> length ?z" by (rule length_filter_le)
        also have "\<dots> \<le> length (corpus m)" using fit by simp
        finally show ?thesis using assms(3) by (simp add: sort_reverse_def)
      qed
      have f: "find_similar cos_sim m q top_k t = sort_reverse snd (filter (\<lambda>p. ge_float32 (snd p) t) ?z)" for t
        using find_similar_fit [OF \<open>corpus_embeddings m = Some embs\<close> fit ne enc Some]
          length_py_slice_to_all [OF len] by simp
      show ?thesis
        unfolding f using assms(2)
        by (auto simp: sort_reverse_def intro!: length_filter_mono elim: ge_float32_antimono)
    qed
  qed
qed


theorem find_similar_threshold_monotone_witness:
  "length (find_similar cos0 languages ''programacao'' 4 (92 / 100)) = 1
   \<and> length (find_similar cos0 languages ''programacao'' 4 (6 / 10)) = 3
   \<and> length (find_similar cos0 languages ''programacao'' 4 (92 / 100))
        \<le> length (find_similar cos0 languages ''programacao'' 4 (6 / 10))"
proof -
  have r: "reachable languages" unfolding languages_def by (intro reachable.intros)
  have t: "(6 / 10 :: real) \<le> 92 / 100" by simp
  have c: "corpus languages = [''python'', ''java'', ''go'', ''rust'']" by code_simp
  have k: "int (length (corpus languages)) \<le> 4" unfolding c by simp
  have 1: "length (find_similar cos0 languages ''programacao'' 4 (92 / 100)) = 1" by code_simp
  have 2: "length (find_similar cos0 languages ''programacao'' 4 (6 / 10)) = 3" by code_simp
  from find_similar_threshold_monotone [OF r t k, of cos0 "''programacao''"] 1 2 show ?thesis by simp
qed

lemma sorted_sort_reverse: "sorted_wrt (\<lambda>a b. f a \<ge> f b) (sort_reverse f xs)"
proof -
  have "sorted (map (\<lambda>x. - f x) (sort_key (\<lambda>x. - f x) xs))" by (rule sorted_sort_key)
  then show ?thesis by (simp add: sort_reverse_def sorted_map)
qed

lemma sort_reverse_stable:
  "filter (\<lambda>x. f x = s) (sort_reverse f xs) = filter (\<lambda>x. f x = s) xs"
  using sort_key_stable [of "\<lambda>x. - f x" "- s" xs] by (simp add: sort_reverse_def)

lemma set_sort_reverse [simp]: "set (sort_reverse f xs) = set xs"
  by (simp add: sort_reverse_def)

text \<open>
  What the search returns on a built vocabulary, with an oracle that embeds the
  query and the entries: the entries whose score is at least the threshold cast to
  single precision, sorted by descending score, cut to \<open>top_k\<close>.
\<close>

lemma find_similar_built:
  assumes "model m0 = Some enc"
    and "\<forall>t \<in> set (corpus (build_corpus m0 skills)). enc t = Some (emb t)"
    and "enc (lower (strip q)) = Some (emb (lower (strip q)))"
  shows "find_similar cos_sim (build_corpus m0 skills) q top_k threshold
         = py_slice_to (sort_reverse snd
             (filter (\<lambda>p. ge_float32 (snd p) threshold)
                (map (\<lambda>e. (e, cos_sim (emb (lower (strip q))) (emb e)))
                   (corpus (build_corpus m0 skills))))) top_k"
proof (cases "corpus (build_corpus m0 skills) = []")
  case True
  then show ?thesis
    by (simp add: find_similar_def sort_reverse_def py_slice_to_def split: option.splits)
next
  case False
  let ?m = "build_corpus m0 skills"
  let ?c = "corpus ?m"
  have "encode_texts m0 ?c = map emb ?c"
    using those_map_Some [OF assms(2)] assms(1) by (simp add: encode_texts_def)
  then have e: "corpus_embeddings ?m = Some (map emb ?c)"
    by (simp add: build_corpus_def Let_def)
  have z: "zip (take (length (map emb ?c)) ?c) (map (cos_sim (emb (lower (strip q)))) (map emb ?c))
           = map (\<lambda>e. (e, cos_sim (emb (lower (strip q))) (emb e))) ?c"
    by (simp add: zip_map2 zip_same_conv_map)
  have m: "model ?m = Some enc" using assms(1) by simp
  show ?thesis
    using find_similar_fit [OF e _ False m assms(3), of cos_sim top_k threshold]
    unfolding z by simp
qed

text \<open>
  Claim C1 says that \<open>find_similar\<close> returns exactly the stored entries whose score is
  at least the threshold, and nothing when no entry clears the threshold; the
  docstring calls the threshold the minimum score. The code misses this at the
  threshold 0.7: the threshold is cast to single precision, which gives
  11744051 / 16777216, a number below 0.7, and the entry whose score is that number
  is returned with a score below the threshold, although no entry of the vocabulary
  has a score of at least 0.7.
\<close>

theorem find_similar_returns_score_below_threshold:
  "find_similar cos0 boundary_index ''quase'' 5 (7 / 10) = [(''limiar'', 11744051 / 16777216)]
   \<and> (11744051 / 16777216 :: real) < 7 / 10
   \<and> float32_round (7 / 10) = 11744051 / 16777216
   \<and> entries_above cos0 id (corpus boundary_index) ''quase'' (7 / 10) = []"
  by code_simp

section \<open>The inference of occupations\<close>

lemma fromkeys_into_append:
  "fromkeys_into keys (xs @ ys) = fromkeys_into (fromkeys_into keys xs) ys"
  by (induction xs arbitrary: keys) auto

lemma dict_fromkeys_snoc:
  "dict_fromkeys (xs @ [t]) = (if t \<in> set xs then dict_fromkeys xs else dict_fromkeys xs @ [t])"
  unfolding dict_fromkeys_def fromkeys_into_append
  by (simp add: set_fromkeys_into)

lemma dict_append_map:
  "distinct ks \<Longrightarrow>
   dict_append (map (\<lambda>k. (k, f k)) ks) t s =
     (if t \<in> set ks then map (\<lambda>k. (k, if k = t then f k @ [s] else f k)) ks
      else map (\<lambda>k. (k, f k)) ks @ [(t, [s])])"
  by (induction ks) auto

lemma accumulated_snoc:
  "accumulated (hs @ [(t, s)]) k = (if k = t then accumulated hs k @ [s] else accumulated hs k)"
  by (simp add: accumulated_def)

lemma accumulated_absent: "t \<notin> fst ` set hs \<Longrightarrow> accumulated hs t = []"
proof -
  assume "t \<notin> fst ` set hs"
  then have "\<forall>x \<in> set hs. fst x \<noteq> t" by (metis image_eqI)
  then show ?thesis by (simp add: accumulated_def filter_empty_conv)
qed

lemma dict_append_grouped: "dict_append (grouped hs) t s = grouped (hs @ [(t, s)])"
proof (cases "t \<in> fst ` set hs")
  case True
  then show ?thesis
    by (simp add: grouped_def dict_append_map dict_fromkeys_snoc accumulated_snoc)
next
  case False
  then show ?thesis
    by (force simp: grouped_def dict_append_map dict_fromkeys_snoc accumulated_snoc
        accumulated_absent)
qed

lemma accumulate_grouped: "accumulate (grouped hs) rs = grouped (hs @ rs)"
proof (induction rs arbitrary: hs)
  case Nil
  then show ?case by simp
next
  case (Cons r rs)
  obtain t s where r: "r = (t, s)" by (cases r)
  show ?case using Cons.IH [of "hs @ [(t, s)]"] by (simp add: r dict_append_grouped)
qed

lemma keyword_loop_grouped:
  "keyword_loop cos_sim m threshold kws (grouped hs)
     = grouped (hs @ keyword_hits cos_sim m threshold kws)"
proof (induction kws arbitrary: hs)
  case Nil
  then show ?case by (simp add: keyword_hits_def)
next
  case (Cons k ks)
  show ?case
  proof (cases "length (strip k) < 3")
    case True
    then show ?thesis using Cons.IH [of hs] by (simp add: keyword_hits_def)
  next
    case False
    then show ?thesis
      using Cons.IH [of "hs @ find_similar cos_sim m k 10 threshold"]
      by (simp add: keyword_hits_def accumulate_grouped)
  qed
qed

lemma grouped_Nil: "grouped [] = []"
  by (simp add: grouped_def dict_fromkeys_def)

lemma infer_occupations_eq:
  "infer_occupations cos_sim svc kws top_k threshold
     = py_slice_to
         (sort_reverse score
            (map (occupation_entry (occupations svc)
                    (keyword_hits cos_sim (skills_matcher svc) threshold kws))
               (dict_fromkeys
                  (map fst (keyword_hits cos_sim (skills_matcher svc) threshold kws)))))
         top_k"
proof (cases "kws = []")
  case True
  then show ?thesis
    by (simp add: infer_occupations_def keyword_hits_def dict_fromkeys_def sort_reverse_def
        py_slice_to_def)
next
  case False
  let ?hits = "keyword_hits cos_sim (skills_matcher svc) threshold kws"
  have k: "keyword_loop cos_sim (skills_matcher svc) threshold kws [] = grouped ?hits"
    using keyword_loop_grouped [of cos_sim "skills_matcher svc" threshold kws "[]"]
    by (simp add: grouped_Nil)
  have avg: "(if scores \<noteq> [] then sum_list scores / real (length scores) else 0) = mean scores"
    for scores :: "real list"
    by (simp add: mean_def)
  have e: "occupation_entry occs hits
             = (\<lambda>t. \<lparr>titulo = t, codigo = occupation_code occs t,
                      score = py_round4 (mean (accumulated hits t)),
                      tier = (if mean (accumulated hits t) > 80 / 100 then ''high''
                              else if mean (accumulated hits t) > 70 / 100 then ''medium''
                              else ''low'')\<rparr>)" for occs hits
    by (rule ext) (simp add: occupation_entry_def confidence_of_def)
  show ?thesis
    unfolding infer_occupations_def k Let_def avg e
    using False by (simp add: grouped_def comp_def)
qed


lemma py_slice_to_take: "\<exists>n. py_slice_to xs k = take n xs"
  by (auto simp: py_slice_to_def)

text \<open>
  Claim C8, as stated, fails: the score of a returned entry is the mean rounded to
  four decimal places, not the mean, and the entries are sorted by the rounded
  score. Two keywords hit one title each, the first at similarity 0.80001 and the
  second at 0.80004. Both entries get the score 0.8, so the stable sort leaves the
  title of the smaller mean first; and both get the confidence \<open>high\<close>, which is the
  confidence of the mean and not that of the score returned.
\<close>

theorem infer_occupations_score_is_rounded:
  "infer_occupations cos0 occupation_service
     [''analise de dados'', ''engenharia de software''] 5 (65 / 100)
     = [\<lparr>titulo = ''analista de dados'', codigo = Some ''2112'', score = 8 / 10,
         tier = ''high''\<rparr>,
        \<lparr>titulo = ''engenheiro de software'', codigo = Some ''2122'', score = 8 / 10,
         tier = ''high''\<rparr>]
   \<and> mean (accumulated
        (keyword_hits cos0 (skills_matcher occupation_service) (65 / 100)
           [''analise de dados'', ''engenharia de software''])
        ''analista de dados'') = 80001 / 100000
   \<and> mean (accumulated
        (keyword_hits cos0 (skills_matcher occupation_service) (65 / 100)
           [''analise de dados'', ''engenharia de software''])
        ''engenheiro de software'') = 80004 / 100000"
  by code_simp

text \<open>
  Claim C8, amended. \<open>infer_occupations\<close> accumulates, for each title, the scores of
  all hits of the keywords' queries (the keywords of fewer than three characters are
  not queried); the score of a title is the arithmetic mean of its accumulated
  scores, rounded to four decimal places, and its confidence is \<open>high\<close> when the mean
  itself is above 0.80, \<open>medium\<close> when it is above 0.70, else \<open>low\<close>; the entries,
  one per title in the order of the first hit, are sorted by descending rounded
  score with a stable sort and cut to \<open>top_k\<close> as a slice does.
\<close>

theorem infer_occupations_ranked:
  "infer_occupations cos_sim svc kws top_k threshold
     = py_slice_to
         (sort_reverse score
            (map (occupation_entry (occupations svc)
                    (keyword_hits cos_sim (skills_matcher svc) threshold kws))
               (dict_fromkeys
                  (map fst (keyword_hits cos_sim (skills_matcher svc) threshold kws)))))
         top_k
   \<and> (\<forall>r \<in> set (infer_occupations cos_sim svc kws top_k threshold).
         score r = py_round4 (mean (accumulated
                     (keyword_hits cos_sim (skills_matcher svc) threshold kws) (titulo r)))
         \<and> tier r = confidence_of (mean (accumulated
                     (keyword_hits cos_sim (skills_matcher svc) threshold kws) (titulo r))))
   \<and> sorted_wrt (\<lambda>a b. score a \<ge> score b)
        (infer_occupations cos_sim svc kws top_k threshold)
   \<and> (0 \<le> top_k \<longrightarrow> length (infer_occupations cos_sim svc kws top_k threshold) \<le> nat top_k)"
proof -
  let ?hits = "keyword_hits cos_sim (skills_matcher svc) threshold kws"
  let ?all = "sort_reverse score
                (map (occupation_entry (occupations svc) ?hits) (dict_fromkeys (map fst ?hits)))"
  have 1: "infer_occupations cos_sim svc kws top_k threshold = py_slice_to ?all top_k"
    by (rule infer_occupations_eq)
  obtain n where n: "py_slice_to ?all top_k = take n ?all"
    using py_slice_to_take by blast
  have 2: "score r = py_round4 (mean (accumulated ?hits (titulo r)))
           \<and> tier r = confidence_of (mean (accumulated ?hits (titulo r)))"
    if "r \<in> set (infer_occupations cos_sim svc kws top_k threshold)" for r
  proof -
    from that have "r \<in> set ?all" unfolding 1 n by (rule in_set_takeD)
    then obtain t where "r = occupation_entry (occupations svc) ?hits t" by auto
    then show ?thesis by (simp add: occupation_entry_def)
  qed
  have 3: "sorted_wrt (\<lambda>a b. score a \<ge> score b)
             (infer_occupations cos_sim svc kws top_k threshold)"
    unfolding 1 n by (intro sorted_wrt_take sorted_sort_reverse)
  have 4: "0 \<le> top_k \<longrightarrow> length (infer_occupations cos_sim svc kws top_k threshold) \<le> nat top_k"
    unfolding 1 by (simp add: py_slice_to_def)
  from 1 2 3 4 show ?thesis by blast
qed

theorem infer_occupations_ranked_witness:
  "infer_occupations cos0 occupation_service [''engenharia de software''] 5 (65 / 100)
     = [\<lparr>titulo = ''engenheiro de software'', codigo = Some ''2122'', score = 8 / 10,
         tier = ''high''\<rparr>]
   \<and> py_round4 (mean (accumulated
        (keyword_hits cos0 (skills_matcher occupation_service) (65 / 100)
           [''engenharia de software''])
        ''engenheiro de software'')) = 8 / 10
   \<and> length (infer_occupations cos0 occupation_service [''engenharia de software''] 5 (65 / 100))
        \<le> nat 5"
proof -
  let ?r = "\<lparr>titulo = ''engenheiro de software'', codigo = Some ''2122'', score = 8 / 10,
             tier = ''high''\<rparr>"
  have v: "infer_occupations cos0 occupation_service [''engenharia de software''] 5 (65 / 100)
             = [?r]"
    by code_simp
  note t = infer_occupations_ranked [of cos0 occupation_service "[''engenharia de software'']" 5 "65 / 100"]
  from t have "\<forall>r \<in> set [?r].
         score r = py_round4 (mean (accumulated
                     (keyword_hits cos0 (skills_matcher occupation_service) (65 / 100)
                        [''engenharia de software'']) (titulo r)))"
    unfolding v by blast
  then have a: "py_round4 (mean (accumulated
        (keyword_hits cos0 (skills_matcher occupation_service) (65 / 100)
           [''engenharia de software''])
        ''engenheiro de software'')) = 8 / 10"
    by simp
  from t have b: "(0::int) \<le> 5 \<longrightarrow>
      length (infer_occupations cos0 occupation_service [''engenharia de software''] 5 (65 / 100))
        \<le> nat 5"
    by blast
  from v a b show ?thesis by simp
qed

section \<open>The profile match\<close>

lemma exact_match_iff:
  "(\<exists>cs \<in> set (map lower candidate_skills).
      sublist (lower requirement) cs \<or> sublist cs (lower requirement))
   = substring_match candidate_skills requirement"
  by (auto simp: substring_match_def)

lemma profile_step_score:
  "profile_step cos_sim m (map lower candidate_skills) (matched, missing, scores, queries) req
   = (case requirement_score cos_sim m candidate_skills req of
        Some s \<Rightarrow> (matched @ [req], missing, scores @ [s],
                    if substring_match candidate_skills req then queries
                    else queries @ [(req, 1, 70 / 100)])
      | None \<Rightarrow> (matched, missing @ [req], scores, queries @ [(req, 1, 70 / 100)]))"
proof (cases "substring_match candidate_skills req")
  case True
  then show ?thesis
    unfolding profile_step_def exact_match_iff Let_def
    by (simp add: requirement_score_def)
next
  case False
  have mem: "(lower t \<in> set (map lower candidate_skills))
               = (\<exists>c \<in> set candidate_skills. lower t = lower c)" for t
    by auto
  show ?thesis
    unfolding profile_step_def exact_match_iff Let_def mem
    using False by (simp add: requirement_score_def split: list.splits prod.splits)
qed

lemma profile_loop_scores:
  "foldl (profile_step cos_sim m (map lower candidate_skills))
     (matched, missing, scores, queries) reqs
   = (matched @ filter (\<lambda>r. requirement_score cos_sim m candidate_skills r \<noteq> None) reqs,
      missing @ filter (\<lambda>r. requirement_score cos_sim m candidate_skills r = None) reqs,
      scores @ List.map_filter (requirement_score cos_sim m candidate_skills) reqs,
      queries @ map (\<lambda>r. (r, 1, 70 / 100))
                  (filter (\<lambda>r. \<not> substring_match candidate_skills r) reqs))"
proof (induction reqs arbitrary: matched missing scores queries)
  case Nil
  then show ?case by (simp add: List.map_filter_simps)
next
  case (Cons r rs)
  show ?case
  proof (cases "requirement_score cos_sim m candidate_skills r")
    case None
    then have "\<not> substring_match candidate_skills r"
      by (auto simp: requirement_score_def)
    with None show ?thesis
      by (simp add: profile_step_score Cons.IH List.map_filter_simps)
  next
    case (Some s)
    then show ?thesis
      by (simp add: profile_step_score Cons.IH List.map_filter_simps)
  qed
qed

lemma sum_list_map_filter:
  "sum_list (List.map_filter f xs) = (\<Sum>x\<leftarrow>xs. case f x of None \<Rightarrow> 0 | Some (s::real) \<Rightarrow> s)"
  by (induction xs) (auto simp: List.map_filter_simps split: option.splits)

text \<open>
  Claim C2, as stated for every non-empty list of requirements, fails when the
  candidate has no skill: the requirement \<open>AWS\<close> is contained in no candidate skill,
  yet the index is not queried, and the result carries no level.
\<close>

theorem calculate_profile_match_no_candidate_skills:
  "calculate_profile_match cos0 skills_index [] [''AWS''] (7 / 10) (3 / 10)
     = (Inr \<lparr>match_score = 0, match_percentage = 0, level = None,
             matched_skills = [], matched_count = None,
             missing_skills = [''AWS''], missing_count = None,
             required_skills = [''AWS''], required_count = None,
             recommendation = None\<rparr>, [])
   \<and> \<not> substring_match [] ''AWS''"
  by (simp add: calculate_profile_match_def substring_match_def)

text \<open>
  Claim C2, amended. For every non-empty list of candidate skills and every non-empty
  list of requirements, \<open>calculate_profile_match\<close> scores a requirement 1 when,
  ignoring case, it is contained in a candidate skill or contains one; otherwise it
  queries the index with \<open>top_k = 1\<close> and threshold 0.70, and the requirement is
  matched with the returned score if the returned text equals a candidate skill
  ignoring case, else it is missing and scores 0. The overall score is the sum of the
  scores of the requirements divided by the number of requirements; the percentage
  is the score times 100, truncated and capped at 100, and the level is the bucket
  of the percentage: from 90 excellent, from 75 good, from 60 moderate, from 40 low,
  else insufficient. The queries made are those of the requirements without a
  containment, in order.
\<close>

theorem calculate_profile_match_scores:
  assumes "candidate_skills \<noteq> []" and "job_requirements \<noteq> []"
  shows "\<exists>r. calculate_profile_match cos_sim m candidate_skills job_requirements w1 w2
           = (Inr r,
              map (\<lambda>q. (q, 1, 70 / 100))
                (filter (\<lambda>q. \<not> substring_match candidate_skills q) job_requirements))
         \<and> matched_skills r
             = filter (\<lambda>q. requirement_score cos_sim m candidate_skills q \<noteq> None) job_requirements
         \<and> missing_skills r
             = filter (\<lambda>q. requirement_score cos_sim m candidate_skills q = None) job_requirements
         \<and> match_score r
             = (\<Sum>q\<leftarrow>job_requirements.
                  case requirement_score cos_sim m candidate_skills q of
                    None \<Rightarrow> 0 | Some s \<Rightarrow> s)
               / real (length job_requirements)
         \<and> match_percentage r = min 100 (py_int (match_score r * 100))
         \<and> level r = Some (level_of (match_percentage r))"
proof -
  let ?f = "requirement_score cos_sim m candidate_skills"
  let ?sc = "List.map_filter ?f job_requirements"
  let ?ma = "filter (\<lambda>q. ?f q \<noteq> None) job_requirements"
  let ?mi = "filter (\<lambda>q. ?f q = None) job_requirements"
  let ?qs = "map (\<lambda>q. (q, 1, 70 / 100 :: real))
               (filter (\<lambda>q. \<not> substring_match candidate_skills q) job_requirements)"
  have loop: "foldl (profile_step cos_sim m (map lower candidate_skills)) ([], [], [], [])
                job_requirements = (?ma, ?mi, ?sc, ?qs)"
    using profile_loop_scores [of cos_sim m candidate_skills "[]" "[]" "[]" "[]" job_requirements]
    by simp
  have avg: "(if xs \<noteq> [] then sum_list xs / n else 0) = sum_list xs / n"
    for xs :: "real list" and n :: real
    by auto
  define avg_score where
    "avg_score = (\<Sum>q\<leftarrow>job_requirements. case ?f q of None \<Rightarrow> 0 | Some s \<Rightarrow> s)
                 / real (length job_requirements)"
  define r where
    "r = \<lparr>match_score = avg_score,
          match_percentage = min 100 (py_int (avg_score * 100)),
          level = Some (level_of (min 100 (py_int (avg_score * 100)))),
          matched_skills = ?ma, matched_count = Some (length ?ma),
          missing_skills = ?mi, missing_count = Some (length ?mi),
          required_skills = job_requirements,
          required_count = Some (length job_requirements),
          recommendation =
            Some (if min 100 (py_int (avg_score * 100)) \<ge> 75 then ''Forte candidato''
                  else ''Candidato em desenvolvimento'')\<rparr>"
  have "calculate_profile_match cos_sim m candidate_skills job_requirements w1 w2 = (Inr r, ?qs)"
    using assms
    by (simp add: calculate_profile_match_def Let_def loop avg sum_list_map_filter
        r_def avg_score_def level_of_def)
  then show ?thesis
    by (intro exI [of _ r]) (simp add: r_def avg_score_def)
qed

theorem calculate_profile_match_scores_witness:
  "calculate_profile_match cos0 skills_index
     [''Python'', ''Django'', ''PostgreSQL'', ''Docker'']
     [''Python'', ''Django'', ''AWS'', ''Docker'', ''Kubernetes''] (7 / 10) (3 / 10)
   = (Inr \<lparr>match_score = 3 / 5, match_percentage = 60, level = Some MODERADO,
           matched_skills = [''Python'', ''Django'', ''Docker''], matched_count = Some 3,
           missing_skills = [''AWS'', ''Kubernetes''], missing_count = Some 2,
           required_skills = [''Python'', ''Django'', ''AWS'', ''Docker'', ''Kubernetes''],
           required_count = Some 5,
           recommendation = Some ''Candidato em desenvolvimento''\<rparr>,
      [(''AWS'', 1, 7 / 10), (''Kubernetes'', 1, 7 / 10)])
   \<and> (\<Sum>q\<leftarrow>[''Python'', ''Django'', ''AWS'', ''Docker'', ''Kubernetes''].
         case requirement_score cos0 skills_index
                [''Python'', ''Django'', ''PostgreSQL'', ''Docker''] q of
           None \<Rightarrow> 0 | Some s \<Rightarrow> s) / real (length [''Python'', ''Django'', ''AWS'', ''Docker'', ''Kubernetes''])
       = 3 / 5"
proof -
  let ?cs = "[''Python'', ''Django'', ''PostgreSQL'', ''Docker'']"
  let ?rq = "[''Python'', ''Django'', ''AWS'', ''Docker'', ''Kubernetes'']"
  have 1: "?cs \<noteq> []" by simp
  have 2: "?rq \<noteq> []" by simp
  have v: "calculate_profile_match cos0 skills_index ?cs ?rq (7 / 10) (3 / 10)
   = (Inr \<lparr>match_score = 3 / 5, match_percentage = 60, level = Some MODERADO,
           matched_skills = [''Python'', ''Django'', ''Docker''], matched_count = Some 3,
           missing_skills = [''AWS'', ''Kubernetes''], missing_count = Some 2,
           required_skills = ?rq, required_count = Some 5,
           recommendation = Some ''Candidato em desenvolvimento''\<rparr>,
      [(''AWS'', 1, 7 / 10), (''Kubernetes'', 1, 7 / 10)])"
    by code_simp
  from calculate_profile_match_scores [OF 1 2, of cos0 skills_index "7 / 10" "3 / 10"]
  obtain r where r: "calculate_profile_match cos0 skills_index ?cs ?rq (7 / 10) (3 / 10) = (Inr r,
              map (\<lambda>q. (q, 1, 70 / 100))
                (filter (\<lambda>q. \<not> substring_match ?cs q) ?rq))"
    and s: "match_score r = (\<Sum>q\<leftarrow>?rq. case requirement_score cos0 skills_index ?cs q of
                    None \<Rightarrow> 0 | Some s \<Rightarrow> s) / real (length ?rq)"
    by blast
  have "Inr r = fst (calculate_profile_match cos0 skills_index ?cs ?rq (7 / 10) (3 / 10))"
    unfolding r by simp
  then have "match_score r = 3 / 5"
    unfolding v by simp
  with s v show ?thesis by simp
qed

end
